theory Spec2Isabelle
  imports Complex_Main "HOL-Library.AList"
begin

section \<open>The read simulator of Art.py\<close>

text \<open>
  A shallow embedding of the read-generation engine of \<^verbatim>\<open>Art.py\<close>: the empirical
  quality model (\<^verbatim>\<open>EmpDist\<close>), the substitution injector (\<^verbatim>\<open>parse_error\<close>), the indel
  generators and the reconstruction of a read (\<^verbatim>\<open>SeqRead\<close>), and the driver (\<^verbatim>\<open>Art\<close>).

  Python integers that count things are \<open>nat\<close>, the others \<open>int\<close>. A numpy array of
  dtype \<^verbatim>\<open>|S1\<close> holds one byte per element, so it is a \<open>string\<close>; the byte 0 is what
  numpy shows as the empty string. Python floats are rationals (every finite float is
  one, and the source only compares them).
\<close>

subsection \<open>Exceptions and results\<close>

datatype error = IndexError | KeyError | ValueError | AssertionError | IOError | TypeError

text \<open>
  A call returns, raises, or is still waiting for random draws when the finite prefix of
  the random stream it was given is used up (\<open>Starved\<close>). The rejection loops of the
  indel generators have no bound in the source, so on a stream that never offers an
  acceptable position they are \<open>Starved\<close> for every prefix.
\<close>

datatype 'a result = Return 'a | Raise error | Starved

definition bind :: "'a result \<Rightarrow> ('a \<Rightarrow> 'b result) \<Rightarrow> 'b result" where
  "bind m f = (case m of Return x \<Rightarrow> f x | Raise e \<Rightarrow> Raise e | Starved \<Rightarrow> Starved)"

subsection \<open>Reverse complement\<close>

text \<open>\<^verbatim>\<open>string.maketrans(frm, to)\<close>: the identity table, overwritten pair by pair.\<close>

definition maketrans :: "string \<Rightarrow> string \<Rightarrow> char \<Rightarrow> char" where
  "maketrans frm to = fold (\<lambda>(a, b) t. t(a := b)) (zip frm to) id"

definition COMPLEMENT_TABLE :: "char \<Rightarrow> char" where
  "COMPLEMENT_TABLE =
     maketrans ''acgtumrwsykvhdbnACGTUMRWSYKVHDBN'' ''TGCAAnnnnnnnnnnnTGCAANNNNNNNNNNN''"

definition translate :: "string \<Rightarrow> (char \<Rightarrow> char) \<Rightarrow> string" where
  "translate s table = map table s"

text \<open>\<^verbatim>\<open>seq.translate(Art.COMPLEMENT_TABLE)[::-1]\<close>\<close>

definition revcomp :: "string \<Rightarrow> string" where
  "revcomp seq = rev (translate seq COMPLEMENT_TABLE)"

subsection \<open>The shared random stream\<close>

text \<open>
  \<^verbatim>\<open>Art.RANDOM_STATE\<close> is one process-wide numpy \<^verbatim>\<open>RandomState\<close>; every sampling call
  goes through it. Its state is the list of the raw draws it will hand out next, one per
  sample. \<^verbatim>\<open>uniform()\<close> yields a multiple of \<open>2\<^sup>-\<^sup>5\<^sup>3\<close> in \<open>[0, 1)\<close>, as numpy's
  \<^verbatim>\<open>random_sample\<close> does; \<^verbatim>\<open>randint(low, high)\<close> yields an integer of \<open>[low, high)\<close> and
  raises \<^verbatim>\<open>ValueError\<close> when the range is empty. Every value of either range is the
  image of some raw draw.
\<close>

type_synonym random_state = "nat list"

definition unit_interval :: "nat \<Rightarrow> rat" where
  "unit_interval x = of_nat (x mod 2 ^ 53) / 2 ^ 53"

definition UNIFORM :: "random_state \<Rightarrow> (rat \<times> random_state) result" where
  "UNIFORM g = (case g of [] \<Rightarrow> Starved | x # g' \<Rightarrow> Return (unit_interval x, g'))"

definition RANDINT :: "nat \<Rightarrow> nat \<Rightarrow> random_state \<Rightarrow> (nat \<times> random_state) result" where
  "RANDINT low high g =
     (if high \<le> low then Raise ValueError
      else case g of [] \<Rightarrow> Starved | x # g' \<Rightarrow> Return (low + x mod (high - low), g'))"

text \<open>The vector forms, \<^verbatim>\<open>uniform(size=n)\<close> and \<^verbatim>\<open>randint(low, high, size=n)\<close>.\<close>

definition UNIFORM_size :: "nat \<Rightarrow> random_state \<Rightarrow> (rat list \<times> random_state) result" where
  "UNIFORM_size n g =
     (if length g < n then Starved else Return (map unit_interval (take n g), drop n g))"

definition RANDINT_size ::
  "nat \<Rightarrow> nat \<Rightarrow> nat \<Rightarrow> random_state \<Rightarrow> (nat list \<times> random_state) result" where
  "RANDINT_size low high n g =
     (if high \<le> low then Raise ValueError
      else if length g < n then Starved
      else Return (map (\<lambda>x. low + x mod (high - low)) (take n g), drop n g))"

subsection \<open>EmpDist: the empirical quality profile\<close>

definition HIGHEST_QUAL :: nat where "HIGHEST_QUAL = 80"
definition MAX_DIST_NUMBER :: nat where "MAX_DIST_NUMBER = 1000000"
definition CMB_SYMB :: char where "CMB_SYMB = CHR ''.''"
definition A_SYMB :: char where "A_SYMB = CHR ''A''"
definition C_SYMB :: char where "C_SYMB = CHR ''C''"
definition G_SYMB :: char where "G_SYMB = CHR ''G''"
definition T_SYMB :: char where "T_SYMB = CHR ''T''"
definition N_SYMB :: char where "N_SYMB = CHR ''N''"

text \<open>
  \<^verbatim>\<open>PRIMARY_SYMB\<close> is a Python set; \<^verbatim>\<open>list(...)\<close> of it and of its differences follows
  the set's iteration order, which CPython 2 fixes as A, C, T, G for these four
  one-letter strings. No property below depends on that order.
\<close>

definition PRIMARY_SYMB :: "char list" where
  "PRIMARY_SYMB = [A_SYMB, C_SYMB, T_SYMB, G_SYMB]"

definition ALL_SYMB :: "char list" where
  "ALL_SYMB = PRIMARY_SYMB @ [CMB_SYMB, N_SYMB]"

text \<open>
  \<^verbatim>\<open>PROB_ERR\<close>, the list of the 80 floats \<^verbatim>\<open>10.0**(-xi*0.1)\<close> for \<open>xi = 0..79\<close>. The float
  power is numpy's; it is the parameter \<open>pow10\<close>, so that what is proved holds for
  whatever floats numpy computes.
\<close>

definition PROB_ERR :: "(nat \<Rightarrow> rat) \<Rightarrow> rat list" where
  "PROB_ERR pow10 = map pow10 [0..<HIGHEST_QUAL]"

definition KO_SUBS_LOOKUP :: "char \<rightharpoonup> char list" where
  "KO_SUBS_LOOKUP = map_of (map (\<lambda>si. (si, filter (\<lambda>c. c \<noteq> si) PRIMARY_SYMB)) PRIMARY_SYMB)"

definition ALL_SUBS :: "char list" where
  "ALL_SUBS = PRIMARY_SYMB"

text \<open>
  One positional table of a profile: the rows \<open>(threshold, quality)\<close> of the numpy array
  that \<^verbatim>\<open>read_emp_dist\<close> builds.
\<close>

type_synonym qcdf = "(int \<times> int) list"

record EmpDist =
  sep_quals :: bool
  qual_dist_first :: "string \<rightharpoonup> qcdf list"
  qual_dist_second :: "string \<rightharpoonup> qcdf list"
  dist_max :: "bool \<Rightarrow> nat"

definition FIRST :: bool where "FIRST = True"
definition SECOND :: bool where "SECOND = False"

text \<open>
  A profile file is read line by line. A line is taken as already stripped and split at
  its tabs: it is blank (which is also what \<^verbatim>\<open>readline\<close> gives at the end of the file), a
  comment (it starts with \<^verbatim>\<open>#\<close>) or a data line, and splitting it gives the fields
  \<^verbatim>\<open>tok[0], int(tok[1]), np.array(tok[2:], dtype=int)\<close> or raises.
\<close>

datatype tokens = Fields string int "int list" | Malformed error

datatype line = Blank | Comment tokens | Data tokens

fun tokenise :: "line \<Rightarrow> tokens" where
  "tokenise Blank = Malformed IndexError"
| "tokenise (Comment t) = t"
| "tokenise (Data t) = t"

text \<open>
  \<^verbatim>\<open>np.ceil(counts * MAX_DIST_NUMBER / counts[-1]).astype(int)\<close>, paired with the values.
  The quotient is exact here, a float in the source; for a last count of zero numpy
  yields nan or inf and a platform-defined integer, the model 0.
\<close>

definition make_dist :: "int list \<Rightarrow> int list \<Rightarrow> qcdf" where
  "make_dist values counts =
     map (\<lambda>(cc, v). (\<lceil>(of_int cc :: rat) * of_nat MAX_DIST_NUMBER / of_int (last counts)\<rceil>, v))
       (zip counts values)"

definition append_dist ::
  "(string \<rightharpoonup> qcdf list) \<Rightarrow> string \<Rightarrow> qcdf \<Rightarrow> (string \<rightharpoonup> qcdf list) result" where
  "append_dist qd symb dist' =
     (case qd symb of None \<Rightarrow> Raise IOError | Some ds \<Rightarrow> Return (qd(symb \<mapsto> ds @ [dist'])))"

text \<open>
  The test that skips the lines of the mode that was not asked for: with separate
  qualities the combined and the N lines, otherwise every line but the combined ones.
\<close>

definition unrequested :: "bool \<Rightarrow> string \<Rightarrow> bool" where
  "unrequested sep symb =
     (if sep then symb = [CMB_SYMB] \<or> symb = [N_SYMB] else symb \<noteq> [CMB_SYMB])"

text \<open>
  The loop of \<^verbatim>\<open>read_emp_dist\<close>; \<open>n\<close> is the position counter, \<open>qd\<close> the dictionary of
  the mate being read. The symbol under which a table is stored is the one of the second
  line of the pair, as in the source, where the second line reassigns \<^verbatim>\<open>symb\<close>.
\<close>

fun read_emp_dist_loop ::
  "bool \<Rightarrow> int \<Rightarrow> (string \<rightharpoonup> qcdf list) \<Rightarrow> line list \<Rightarrow> (int \<times> (string \<rightharpoonup> qcdf list)) result"
where
  "read_emp_dist_loop sep n qd [] = Return (n, qd)"
| "read_emp_dist_loop sep n qd (Blank # hndl) = Return (n, qd)"
| "read_emp_dist_loop sep n qd (Comment t # hndl) = read_emp_dist_loop sep n qd hndl"
| "read_emp_dist_loop sep n qd (Data t # hndl) =
     (case t of
        Malformed e \<Rightarrow> Raise e
      | Fields symb read_pos values \<Rightarrow>
          if unrequested sep symb then read_emp_dist_loop sep n qd hndl
          else if read_pos \<noteq> n \<and> read_pos \<noteq> 0 then Raise IOError
          else
            let n = (if read_pos \<noteq> n then 0 else n) in
            (case hndl of
               [] \<Rightarrow> Raise IndexError
             | l2 # hndl2 \<Rightarrow>
                 (case tokenise l2 of
                    Malformed e \<Rightarrow> Raise e
                  | Fields symb2 read_pos2 counts \<Rightarrow>
                      if read_pos2 \<noteq> n then Raise IOError
                      else if length values \<noteq> length counts then Raise IOError
                      else if counts = [] then Raise IndexError
                      else
                        let dist' = make_dist values counts in
                        if dist' \<noteq> [] then
                          (case append_dist qd symb2 dist' of
                             Return qd' \<Rightarrow> read_emp_dist_loop sep (n + 1) qd' hndl2
                           | Raise e \<Rightarrow> Raise e
                           | Starved \<Rightarrow> Starved)
                        else read_emp_dist_loop sep n qd hndl2)))"

definition read_emp_dist :: "EmpDist \<Rightarrow> line list \<Rightarrow> bool \<Rightarrow> (bool \<times> EmpDist) result" where
  "read_emp_dist self hndl is_first =
     (if is_first then
        bind (read_emp_dist_loop (sep_quals self) 0 (qual_dist_first self) hndl)
          (\<lambda>(n, qd). Return (n \<noteq> 0, self\<lparr>qual_dist_first := qd\<rparr>))
      else
        bind (read_emp_dist_loop (sep_quals self) 0 (qual_dist_second self) hndl)
          (\<lambda>(n, qd). Return (n \<noteq> 0, self\<lparr>qual_dist_second := qd\<rparr>)))"

text \<open>\<^verbatim>\<open>map(_clear_list, d.values())\<close>: every list of the dictionary is emptied in place.\<close>

definition clear_lists :: "(string \<rightharpoonup> qcdf list) \<Rightarrow> (string \<rightharpoonup> qcdf list)" where
  "clear_lists qd = (\<lambda>k. map_option (\<lambda>_. []) (qd k))"

definition getitem :: "('k \<rightharpoonup> 'v) \<Rightarrow> 'k \<Rightarrow> 'v result" where
  "getitem d k = (case d k of None \<Rightarrow> Raise KeyError | Some v \<Rightarrow> Return v)"

text \<open>
  The check of the per-symbol branch of \<^verbatim>\<open>init_dist\<close>: the lengths of the four primary
  symbols' lists, all equal to their maximum, which is returned.
\<close>

definition full_range :: "(string \<rightharpoonup> qcdf list) \<Rightarrow> nat result" where
  "full_range qd =
     (if \<exists>k \<in> set PRIMARY_SYMB. qd [k] = None then Raise KeyError
      else
        let dist_len = map (\<lambda>k. length (the (qd [k]))) PRIMARY_SYMB in
        if \<forall>l \<in> set dist_len. l = Max (set dist_len) then Return (Max (set dist_len))
        else Raise AssertionError)"

definition init_dist :: "EmpDist \<Rightarrow> line list \<Rightarrow> line list \<Rightarrow> EmpDist result" where
  "init_dist self fname_first fname_second =
     (let self = self\<lparr>qual_dist_first := clear_lists (qual_dist_first self),
                      qual_dist_second := clear_lists (qual_dist_second self)\<rparr> in
      bind (read_emp_dist self fname_first True) (\<lambda>(_, self).
      bind (read_emp_dist self fname_second False) (\<lambda>(_, self).
        if \<not> sep_quals self then
          bind (getitem (qual_dist_first self) [CMB_SYMB]) (\<lambda>cmb1.
          bind (getitem (qual_dist_second self) [CMB_SYMB]) (\<lambda>cmb2.
            Return (self\<lparr>dist_max := (dist_max self)(FIRST := length cmb1, SECOND := length cmb2)\<rparr>)))
        else
          bind (full_range (qual_dist_first self)) (\<lambda>m1.
          bind (full_range (qual_dist_second self)) (\<lambda>m2.
            Return (self\<lparr>dist_max := (dist_max self)(FIRST := m1, SECOND := m2)\<rparr>))))))"

text \<open>\<^verbatim>\<open>EmpDist.__init__\<close>\<close>

definition EmpDist_init :: "line list \<Rightarrow> line list \<Rightarrow> bool \<Rightarrow> EmpDist result" where
  "EmpDist_init fname_first fname_second sep =
     (if sep then Raise AssertionError
      else
        init_dist
          \<lparr>sep_quals = sep,
           qual_dist_first = map_of (map (\<lambda>k. ([k], [])) ALL_SYMB),
           qual_dist_second = map_of (map (\<lambda>k. ([k], [])) ALL_SYMB),
           dist_max = (\<lambda>_. 0)\<rparr>
          fname_first fname_second)"

subsection \<open>Sampling quality scores\<close>

definition verify_length :: "EmpDist \<Rightarrow> nat \<Rightarrow> bool \<Rightarrow> unit result" where
  "verify_length self len is_first =
     (if len \<le> dist_max self is_first then Return () else Raise AssertionError)"

text \<open>
  \<^verbatim>\<open>np.searchsorted(a, v)\<close> (side left) is numpy's binary search: it never looks whether
  \<open>a\<close> is sorted.
\<close>

function binsearch_left :: "int list \<Rightarrow> int \<Rightarrow> nat \<Rightarrow> nat \<Rightarrow> nat" where
  "binsearch_left arr key min_idx max_idx =
     (if min_idx < max_idx then
        let mid = min_idx + (max_idx - min_idx) div 2 in
        if arr ! mid < key then binsearch_left arr key (mid + 1) max_idx
        else binsearch_left arr key min_idx mid
      else min_idx)"
  by pat_completeness auto
termination
  by (relation "measure (\<lambda>(arr, key, min_idx, max_idx). max_idx - min_idx)") auto

definition searchsorted :: "int list \<Rightarrow> int \<Rightarrow> nat" where
  "searchsorted a v = binsearch_left a v 0 (length a)"

text \<open>\<^verbatim>\<open>qcdf[np.searchsorted(qcdf[:, 0], rv), 1]\<close>\<close>

definition lookup_qcdf :: "qcdf \<Rightarrow> nat \<Rightarrow> int result" where
  "lookup_qcdf qcdf rv =
     (let idx = searchsorted (map fst qcdf) (int rv) in
      if idx < length qcdf then Return (snd (qcdf ! idx)) else Raise IndexError)"

text \<open>\<^verbatim>\<open>imap(EmpDist._lookup_qcdf, qual_dist_for_symb, rv_list)\<close> stops at the shorter list.\<close>

fun lookup_all :: "qcdf list \<Rightarrow> nat list \<Rightarrow> int list result" where
  "lookup_all (qcdf # qcdfs) (rv # rvs) =
     (case lookup_qcdf qcdf rv of
        Return qi \<Rightarrow>
          (case lookup_all qcdfs rvs of
             Return qis \<Rightarrow> Return (qi # qis) | Raise e \<Rightarrow> Raise e | Starved \<Rightarrow> Starved)
      | Raise e \<Rightarrow> Raise e
      | Starved \<Rightarrow> Starved)"
| "lookup_all _ _ = Return []"

definition get_from_dist ::
  "qcdf list \<Rightarrow> nat \<Rightarrow> random_state \<Rightarrow> (int list \<times> random_state) result" where
  "get_from_dist qual_dist_for_symb len g =
     bind (RANDINT_size 1 (MAX_DIST_NUMBER + 1) len g) (\<lambda>(rv_list, g').
     bind (lookup_all qual_dist_for_symb rv_list) (\<lambda>qs.
       if \<not> 0 < length qs then Raise AssertionError
       else if length qs \<noteq> len then Raise AssertionError
       else Return (qs, g')))"

definition get_read_qual ::
  "EmpDist \<Rightarrow> nat \<Rightarrow> bool \<Rightarrow> random_state \<Rightarrow> (int list \<times> random_state) result" where
  "get_read_qual self len is_first g =
     bind (verify_length self len is_first) (\<lambda>_.
       if is_first then
         bind (getitem (qual_dist_first self) [CMB_SYMB]) (\<lambda>qd. get_from_dist qd len g)
       else
         bind (getitem (qual_dist_second self) [CMB_SYMB]) (\<lambda>qd. get_from_dist qd len g))"

subsection \<open>Substitution errors\<close>

text \<open>\<^verbatim>\<open>xs[i]\<close> on a Python list: a negative index counts from the end.\<close>

definition py_index :: "'a list \<Rightarrow> int \<Rightarrow> 'a result" where
  "py_index xs i =
     (let n = int (length xs); j = (if i < 0 then n + i else i) in
      if 0 \<le> j \<and> j < n then Return (xs ! nat j) else Raise IndexError)"

text \<open>
  \<^verbatim>\<open>Art.random_base(excl=None)\<close>. \<^verbatim>\<open>not excl\<close> holds for \<^verbatim>\<open>None\<close> and for the empty string,
  the byte 0 of an array. \<^verbatim>\<open>KO_SUBS_LOOKUP[excl]\<close> is evaluated, and raises, before the
  index is drawn.
\<close>

definition random_base :: "char option \<Rightarrow> random_state \<Rightarrow> (char \<times> random_state) result" where
  "random_base excl g =
     (if excl = None \<or> excl = Some (CHR 0x00) then
        bind (RANDINT 0 4 g) (\<lambda>(r, g'). Return (ALL_SUBS ! r, g'))
      else
        (case KO_SUBS_LOOKUP (the excl) of
           None \<Rightarrow> Raise KeyError
         | Some subs \<Rightarrow> bind (RANDINT 0 3 g) (\<lambda>(r, g'). Return (subs ! r, g'))))"

text \<open>
  The loop of \<^verbatim>\<open>parse_error\<close> from position \<open>i\<close> on; \<open>rvals\<close> are the uniform values
  drawn before the loop. It changes \<open>quals\<close> and \<open>seq_read\<close> in place in the source and
  returns them here.
\<close>

function parse_error_loop ::
  "(nat \<Rightarrow> rat) \<Rightarrow> rat list \<Rightarrow> nat \<Rightarrow> nat \<Rightarrow> int list \<Rightarrow> string \<Rightarrow> random_state
     \<Rightarrow> (int list \<times> string \<times> random_state) result" where
  "parse_error_loop pow10 rvals num_seq i quals seq_read g =
     (if i < num_seq then
        if length seq_read \<le> i then Raise IndexError
        else if seq_read ! i = N_SYMB then
          parse_error_loop pow10 rvals num_seq (i + 1) (quals[i := 1]) seq_read g
        else
          (case py_index (PROB_ERR pow10) (quals ! i) of
             Return p \<Rightarrow>
               if rvals ! i < p then
                 (case random_base (Some (seq_read ! i)) g of
                    Return (b, g') \<Rightarrow>
                      parse_error_loop pow10 rvals num_seq (i + 1) quals (seq_read[i := b]) g'
                  | Raise e \<Rightarrow> Raise e
                  | Starved \<Rightarrow> Starved)
               else parse_error_loop pow10 rvals num_seq (i + 1) quals seq_read g
           | Raise e \<Rightarrow> Raise e
           | Starved \<Rightarrow> Starved)
      else Return (quals, seq_read, g))"
  by pat_completeness auto
termination
  by (relation "measure (\<lambda>(pow10, rvals, num_seq, i, quals, seq_read, g). num_seq - i)") auto

definition parse_error ::
  "(nat \<Rightarrow> rat) \<Rightarrow> int list \<Rightarrow> string \<Rightarrow> random_state
     \<Rightarrow> (int list \<times> string \<times> random_state) result" where
  "parse_error pow10 quals seq_read g =
     bind (UNIFORM_size (length quals) g) (\<lambda>(rvals, g').
       parse_error_loop pow10 rvals (length quals) 0 quals seq_read g')"

subsection \<open>SeqRead: indels\<close>

text \<open>
  The indel dictionary, in insertion order: position to \<open>-\<close> (a deletion) or to the
  inserted base. \<^verbatim>\<open>indel[pos] = v\<close> is \<open>AList.update\<close>, which overwrites a key that is
  there and appends one that is not.
\<close>

type_synonym indel_map = "(nat \<times> char) list"

definition contains :: "indel_map \<Rightarrow> nat \<Rightarrow> bool" where
  "contains indel pos \<longleftrightarrow> pos \<in> fst ` set indel"

text \<open>
  The \<^verbatim>\<open>while j >= 0\<close> loops that place the deletions and the insertions. Each turn
  takes at least one draw, accepted or not.
\<close>

function place_deletions ::
  "int \<Rightarrow> nat \<Rightarrow> indel_map \<Rightarrow> random_state \<Rightarrow> (indel_map \<times> random_state) result" where
  "place_deletions j read_len indel g =
     (if j \<ge> 0 then
        (case RANDINT 0 read_len g of
           Return (pos, g') \<Rightarrow>
             if pos = 0 then place_deletions j read_len indel g'
             else if \<not> contains indel pos then
               place_deletions (j - 1) read_len (AList.update pos (CHR ''-'') indel) g'
             else place_deletions j read_len indel g'
         | Raise e \<Rightarrow> Raise e
         | Starved \<Rightarrow> Starved)
      else Return (indel, g))"
  by pat_completeness auto
termination
  by (relation "measure (\<lambda>(j, read_len, indel, g). length g)")
    (auto simp: RANDINT_def split: if_splits list.splits)

function place_insertions ::
  "int \<Rightarrow> nat \<Rightarrow> indel_map \<Rightarrow> random_state \<Rightarrow> (indel_map \<times> random_state) result" where
  "place_insertions j read_len indel g =
     (if j \<ge> 0 then
        (case RANDINT 0 read_len g of
           Return (pos, g') \<Rightarrow>
             if \<not> contains indel pos then
               (case random_base None g' of
                  Return (b, g'') \<Rightarrow>
                    place_insertions (j - 1) read_len (AList.update pos b indel) g''
                | Raise e \<Rightarrow> Raise e
                | Starved \<Rightarrow> Starved)
             else place_insertions j read_len indel g'
         | Raise e \<Rightarrow> Raise e
         | Starved \<Rightarrow> Starved)
      else Return (indel, g))"
  by pat_completeness auto
termination
  by (relation "measure (\<lambda>(j, read_len, indel, g). length g)")
    (auto simp: RANDINT_def random_base_def bind_def split: if_splits list.splits)

text \<open>
  The \<^verbatim>\<open>for i in xrange(len(rate)-1, -1, -1)\<close> loops. The equation for \<open>Suc i\<close> is the
  body of the loop at \<open>i\<close>; the recursive call at \<open>i\<close> is the next turn. Each returns the
  length it settled on (0 when the loop ran out), the dictionary and the stream.

  In \<^verbatim>\<open>get_indel\<close>: deletions first, then insertions where enough positions remain.
\<close>

fun get_indel_del ::
  "nat \<Rightarrow> rat list \<Rightarrow> nat \<Rightarrow> indel_map \<Rightarrow> random_state
     \<Rightarrow> (nat \<times> indel_map \<times> random_state) result" where
  "get_indel_del 0 del_rate read_len indel g = Return (0, indel, g)"
| "get_indel_del (Suc i) del_rate read_len indel g =
     (case UNIFORM g of
        Return (u, g') \<Rightarrow>
          if del_rate ! i \<ge> u then
            (case place_deletions (int i) read_len indel g' of
               Return (indel', g'') \<Rightarrow> Return (i + 1, indel', g'')
             | Raise e \<Rightarrow> Raise e
             | Starved \<Rightarrow> Starved)
          else get_indel_del i del_rate read_len indel g'
      | Raise e \<Rightarrow> Raise e
      | Starved \<Rightarrow> Starved)"

fun get_indel_ins ::
  "nat \<Rightarrow> rat list \<Rightarrow> nat \<Rightarrow> nat \<Rightarrow> nat \<Rightarrow> indel_map \<Rightarrow> random_state
     \<Rightarrow> (nat \<times> indel_map \<times> random_state) result" where
  "get_indel_ins 0 ins_rate read_len del_len ins_len indel g = Return (ins_len, indel, g)"
| "get_indel_ins (Suc i) ins_rate read_len del_len ins_len indel g =
     (if int read_len - int del_len - int ins_len < int i + 1 then
        get_indel_ins i ins_rate read_len del_len ins_len indel g
      else
        (case UNIFORM g of
           Return (u, g') \<Rightarrow>
             if ins_rate ! i \<ge> u then
               (case place_insertions (int i) read_len indel g' of
                  Return (indel', g'') \<Rightarrow> Return (i + 1, indel', g'')
                | Raise e \<Rightarrow> Raise e
                | Starved \<Rightarrow> Starved)
             else get_indel_ins i ins_rate read_len del_len ins_len indel g'
         | Raise e \<Rightarrow> Raise e
         | Starved \<Rightarrow> Starved))"

text \<open>In \<^verbatim>\<open>get_indel_2\<close>: insertions first, then deletions.\<close>

fun get_indel_2_ins ::
  "nat \<Rightarrow> rat list \<Rightarrow> nat \<Rightarrow> indel_map \<Rightarrow> random_state
     \<Rightarrow> (nat \<times> indel_map \<times> random_state) result" where
  "get_indel_2_ins 0 ins_rate read_len indel g = Return (0, indel, g)"
| "get_indel_2_ins (Suc i) ins_rate read_len indel g =
     (case UNIFORM g of
        Return (u, g') \<Rightarrow>
          if ins_rate ! i \<ge> u then
            (case place_insertions (int i) read_len indel g' of
               Return (indel', g'') \<Rightarrow> Return (i + 1, indel', g'')
             | Raise e \<Rightarrow> Raise e
             | Starved \<Rightarrow> Starved)
          else get_indel_2_ins i ins_rate read_len indel g'
      | Raise e \<Rightarrow> Raise e
      | Starved \<Rightarrow> Starved)"

fun get_indel_2_del ::
  "nat \<Rightarrow> rat list \<Rightarrow> nat \<Rightarrow> nat \<Rightarrow> nat \<Rightarrow> indel_map \<Rightarrow> random_state
     \<Rightarrow> (nat \<times> indel_map \<times> random_state) result" where
  "get_indel_2_del 0 del_rate read_len del_len ins_len indel g = Return (del_len, indel, g)"
| "get_indel_2_del (Suc i) del_rate read_len del_len ins_len indel g =
     (if del_len = ins_len then Return (del_len, indel, g)
      else if int read_len - int del_len - int ins_len < int i + 1 then
        get_indel_2_del i del_rate read_len del_len ins_len indel g
      else
        (case UNIFORM g of
           Return (u, g') \<Rightarrow>
             if del_rate ! i \<ge> u then
               (case place_deletions (int i) read_len indel g' of
                  Return (indel', g'') \<Rightarrow> Return (i + 1, indel', g'')
                | Raise e \<Rightarrow> Raise e
                | Starved \<Rightarrow> Starved)
             else get_indel_2_del i del_rate read_len del_len ins_len indel g'
         | Raise e \<Rightarrow> Raise e
         | Starved \<Rightarrow> Starved))"

subsection \<open>SeqRead: from the reference to the read\<close>

text \<open>
  \<^verbatim>\<open>a[n] = v\<close> on a numpy array of fixed shape: an index past the end raises.
\<close>

definition setitem :: "string \<Rightarrow> nat \<Rightarrow> char \<Rightarrow> string result" where
  "setitem a n v = (if n < length a then Return (a[n := v]) else Raise IndexError)"

function ref2read_walk ::
  "string \<Rightarrow> indel_map \<Rightarrow> string \<Rightarrow> nat \<Rightarrow> nat \<Rightarrow> nat \<Rightarrow> (string \<times> nat \<times> nat) result" where
  "ref2read_walk seq_ref indel seq_read n k i =
     (if i < length seq_ref then
        (case map_of indel k of
           None \<Rightarrow>
             (case setitem seq_read n (seq_ref ! i) of
                Return a \<Rightarrow> ref2read_walk seq_ref indel a (n + 1) (k + 1) (i + 1)
              | Raise e \<Rightarrow> Raise e
              | Starved \<Rightarrow> Starved)
         | Some v \<Rightarrow>
             if v = CHR ''-'' then ref2read_walk seq_ref indel seq_read n (k + 1) (i + 1)
             else
               (case setitem seq_read n v of
                  Return a \<Rightarrow> ref2read_walk seq_ref indel a (n + 1) (k + 1) i
                | Raise e \<Rightarrow> Raise e
                | Starved \<Rightarrow> Starved))
      else Return (seq_read, n, k))"
  by pat_completeness auto
termination
proof (relation "measure (\<lambda>(seq_ref, indel, seq_read, n, k, i).
          (length seq_ref - i) + length (filter (\<lambda>e. k \<le> fst e) indel))", goal_cases)
  case 1 show ?case by simp
next
  case (2 seq_ref indel seq_read n k i a)
  have "length (filter (\<lambda>e. k + 1 \<le> fst e) indel) \<le> length (filter (\<lambda>e. k \<le> fst e) indel)"
    by (induction indel) auto
  with 2 show ?case by simp
next
  case (3 seq_ref indel seq_read n k i v)
  have "length (filter (\<lambda>e. k + 1 \<le> fst e) indel) \<le> length (filter (\<lambda>e. k \<le> fst e) indel)"
    by (induction indel) auto
  with 3 show ?case by simp
next
  case (4 seq_ref indel seq_read n k i v a)
  from 4 have "(k, v) \<in> set indel" by (simp add: map_of_SomeD)
  moreover have le: "length (filter (\<lambda>e. k + 1 \<le> fst e) xs) \<le> length (filter (\<lambda>e. k \<le> fst e) xs)"
    for xs :: indel_map by (induction xs) auto
  ultimately have "length (filter (\<lambda>e. k + 1 \<le> fst e) indel) < length (filter (\<lambda>e. k \<le> fst e) indel)"
    by (induction indel) (auto simp: less_Suc_eq_le)
  with 4 show ?case by simp
qed

function ref2read_flush ::
  "indel_map \<Rightarrow> string \<Rightarrow> nat \<Rightarrow> nat \<Rightarrow> (string \<times> nat \<times> nat) result" where
  "ref2read_flush indel seq_read n k =
     (case map_of indel k of
        None \<Rightarrow> Return (seq_read, n, k)
      | Some v \<Rightarrow>
          (case setitem seq_read n v of
             Return a \<Rightarrow> ref2read_flush indel a (n + 1) (k + 1)
           | Raise e \<Rightarrow> Raise e
           | Starved \<Rightarrow> Starved))"
  by pat_completeness auto
termination
proof (relation "measure (\<lambda>(indel, seq_read, n, k). length (filter (\<lambda>e. k \<le> fst e) indel))", goal_cases)
  case 1 show ?case by simp
next
  case (2 indel seq_read n k v a)
  from 2 have "(k, v) \<in> set indel" by (simp add: map_of_SomeD)
  moreover have le: "length (filter (\<lambda>e. k + 1 \<le> fst e) xs) \<le> length (filter (\<lambda>e. k \<le> fst e) xs)"
    for xs :: indel_map by (induction xs) auto
  ultimately have "length (filter (\<lambda>e. k + 1 \<le> fst e) indel) < length (filter (\<lambda>e. k \<le> fst e) indel)"
    by (induction indel) (auto simp: less_Suc_eq_le)
  with 2 show ?case by simp
qed

record SeqRead =
  max_num :: nat
  read_len :: nat
  is_plus_strand :: bool
  seq_ref :: string
  seq_read :: string
  quals :: "int list option"
  bpos :: "int option"
  indel :: indel_map
  del_rate :: "rat list"
  ins_rate :: "rat list"

text \<open>
  \<^verbatim>\<open>SeqRead.__init__\<close>: both arrays are \<^verbatim>\<open>np.zeros(read_len, dtype=np.str)\<close>, that is
  \<open>read_len\<close> zero bytes.
\<close>

definition SeqRead_init :: "nat \<Rightarrow> rat list \<Rightarrow> rat list \<Rightarrow> nat \<Rightarrow> bool \<Rightarrow> SeqRead" where
  "SeqRead_init rl ir dr mn plus_strand =
     \<lparr>max_num = mn, read_len = rl, is_plus_strand = plus_strand,
      seq_ref = replicate rl (CHR 0x00), seq_read = replicate rl (CHR 0x00),
      quals = None, bpos = None, indel = [], del_rate = dr, ins_rate = ir\<rparr>"

text \<open>
  \<^verbatim>\<open>get_indel\<close> and \<^verbatim>\<open>get_indel_2\<close> return \<^verbatim>\<open>ins_len - del_len\<close>; the two lengths are
  kept apart in \<open>get_indel_lens\<close> and \<open>get_indel_2_lens\<close>, which return
  \<open>(ins_len, del_len)\<close> with the read and the stream.
\<close>

definition get_indel_lens ::
  "SeqRead \<Rightarrow> random_state \<Rightarrow> ((nat \<times> nat) \<times> SeqRead \<times> random_state) result" where
  "get_indel_lens self g =
     bind (get_indel_del (length (del_rate self)) (del_rate self) (read_len self) [] g)
       (\<lambda>(del_len, im, g').
     bind (get_indel_ins (length (ins_rate self)) (ins_rate self) (read_len self) del_len 0 im g')
       (\<lambda>(ins_len, im', g'').
       Return ((ins_len, del_len), self\<lparr>indel := im'\<rparr>, g'')))"

definition get_indel :: "SeqRead \<Rightarrow> random_state \<Rightarrow> (int \<times> SeqRead \<times> random_state) result" where
  "get_indel self g =
     bind (get_indel_lens self g) (\<lambda>((ins_len, del_len), self', g').
       Return (int ins_len - int del_len, self', g'))"

definition get_indel_2_lens ::
  "SeqRead \<Rightarrow> random_state \<Rightarrow> ((nat \<times> nat) \<times> SeqRead \<times> random_state) result" where
  "get_indel_2_lens self g =
     bind (get_indel_2_ins (length (ins_rate self)) (ins_rate self) (read_len self) [] g)
       (\<lambda>(ins_len, im, g').
     bind (get_indel_2_del (length (del_rate self)) (del_rate self) (read_len self) 0 ins_len im g')
       (\<lambda>(del_len, im', g'').
       Return ((ins_len, del_len), self\<lparr>indel := im'\<rparr>, g'')))"

definition get_indel_2 :: "SeqRead \<Rightarrow> random_state \<Rightarrow> (int \<times> SeqRead \<times> random_state) result" where
  "get_indel_2 self g =
     bind (get_indel_2_lens self g) (\<lambda>((ins_len, del_len), self', g').
       Return (int ins_len - int del_len, self', g'))"

text \<open>
  \<^verbatim>\<open>ref2read\<close>. Without indels the read is the reference slice itself. Otherwise
  \<^verbatim>\<open>self.seq_read[:] = 0\<close> fills the array, whose shape stays what the constructor made
  it, with the character \<open>0\<close> (numpy stores \<^verbatim>\<open>str(0)\<close>), and the two loops write into it.
\<close>

definition ref2read :: "SeqRead \<Rightarrow> SeqRead result" where
  "ref2read self =
     (if length (indel self) = 0 then Return (self\<lparr>seq_read := seq_ref self\<rparr>)
      else
        bind (ref2read_walk (seq_ref self) (indel self)
                (replicate (length (seq_read self)) (CHR ''0'')) 0 0 0) (\<lambda>(sr, n, k).
        bind (ref2read_flush (indel self) sr n k) (\<lambda>(sr', n', k').
          Return (self\<lparr>seq_read := sr'\<rparr>))))"

text \<open>\<^verbatim>\<open>SeqRead.length\<close>: \<^verbatim>\<open>self.seq_read.shape[0]\<close>\<close>

definition length_read :: "SeqRead \<Rightarrow> nat" where
  "length_read self = length (seq_read self)"

subsection \<open>Art: the driver\<close>

record Art =
  emp_dist :: EmpDist
  ref_seq :: "string option"
  ref_seq_cmp :: "string option"
  valid_region :: "int option"
  art_read_len :: nat
  art_max_num :: nat
  art_ins_rate :: "rat list"
  art_del_rate :: "rat list"

text \<open>\<^verbatim>\<open>xs[a:b]\<close> on a Python sequence; \<^verbatim>\<open>xs[:b]\<close> is \<open>py_slice xs 0 b\<close>.\<close>

definition py_clamp :: "int \<Rightarrow> int \<Rightarrow> int" where
  "py_clamp n i = (if i < 0 then max (n + i) 0 else min i n)"

definition py_slice :: "'a list \<Rightarrow> int \<Rightarrow> int \<Rightarrow> 'a list" where
  "py_slice xs a b =
     (let n = int (length xs); a' = py_clamp n a; b' = py_clamp n b in
      take (nat (b' - a')) (drop (nat a') xs))"

definition upper :: "char \<Rightarrow> char" where
  "upper c =
     (let n = (of_char c :: nat) in if 97 \<le> n \<and> n \<le> 122 then char_of (n - 32) else c)"

definition make_mutable :: "string \<Rightarrow> string" where
  "make_mutable input_seq = map upper input_seq"

text \<open>
  \<^verbatim>\<open>_make_rate\<close>: the rates and the possibly lowered \<^verbatim>\<open>self.max_num\<close>. The binomial
  distribution function is scipy's, the parameter \<open>binom_cdf\<close>.
\<close>

definition make_rate ::
  "(nat \<Rightarrow> nat \<Rightarrow> rat \<Rightarrow> rat) \<Rightarrow> nat \<Rightarrow> nat \<Rightarrow> rat \<Rightarrow> rat list \<times> nat" where
  "make_rate binom_cdf mn rl prob =
     (let mn' = (if mn > rl then rl else mn) in
      (map (\<lambda>i. 1 - binom_cdf i rl prob) [1..<mn' + 1], mn'))"

text \<open>
  \<^verbatim>\<open>Art.__init__\<close>. The last argument is the state of the shared stream
  \<^verbatim>\<open>Art.RANDOM_STATE\<close> when the constructor is called, and the state after it is
  returned with the object. \<open>RandomState\<close> is numpy's constructor of a stream from a
  seed (it raises for a seed outside its range).
\<close>

definition Art_init ::
  "(int \<Rightarrow> random_state result) \<Rightarrow> (nat \<Rightarrow> nat \<Rightarrow> rat \<Rightarrow> rat) \<Rightarrow> nat \<Rightarrow> EmpDist \<Rightarrow> rat \<Rightarrow> rat
     \<Rightarrow> nat \<Rightarrow> int option \<Rightarrow> string option \<Rightarrow> random_state \<Rightarrow> (Art \<times> random_state) result"
where
  "Art_init RandomState binom_cdf rl emp ins_prob del_prob mn seed ref RANDOM_STATE =
     bind (verify_length emp rl True) (\<lambda>_.
     bind (verify_length emp rl False) (\<lambda>_.
     bind (if seed \<noteq> None \<and> seed \<noteq> Some 0 then RandomState (the seed)
           else Return RANDOM_STATE) (\<lambda>rs.
       let has_ref = (ref \<noteq> None \<and> ref \<noteq> Some []);
           (ins, mn1) = make_rate binom_cdf mn rl ins_prob;
           (del, mn2) = make_rate binom_cdf mn1 rl del_prob
       in Return
            (\<lparr>emp_dist = emp,
              ref_seq = (if has_ref then Some (make_mutable (the ref)) else None),
              ref_seq_cmp = (if has_ref then Some (revcomp (the ref)) else None),
              valid_region = (if has_ref then Some (int (length (the ref)) - int rl) else None),
              art_read_len = rl, art_max_num = mn2, art_ins_rate = ins, art_del_rate = del\<rparr>,
             rs))))"

text \<open>\<^verbatim>\<open>Art._new_read(rlen=None, plus_strand=True)\<close>\<close>

definition new_read :: "Art \<Rightarrow> nat option \<Rightarrow> bool \<Rightarrow> SeqRead" where
  "new_read self rlen plus_strand =
     (if rlen = None \<or> rlen = Some 0 then
        SeqRead_init (art_read_len self) (art_ins_rate self) (art_del_rate self)
          (art_max_num self) plus_strand
      else
        SeqRead_init (the rlen) (art_ins_rate self) (art_del_rate self)
          (art_max_num self) plus_strand)"

definition next_read_simple_seq :: "Art \<Rightarrow> string \<Rightarrow> bool \<Rightarrow> int \<Rightarrow> SeqRead result" where
  "next_read_simple_seq self template plus_strand qual_val =
     (let read = new_read self None plus_strand;
          read = (if length template < read_len read
                  then read\<lparr>read_len := length template\<rparr> else read);
          read = (if is_plus_strand read
                  then read\<lparr>seq_ref := py_slice template 0 (int (art_read_len self))\<rparr>
                  else read\<lparr>seq_ref := py_slice (revcomp template) 0 (int (art_read_len self))\<rparr>);
          read = read\<lparr>bpos := Some 0\<rparr>
      in bind (ref2read read) (\<lambda>read.
           Return (read\<lparr>quals := Some (replicate (read_len read) qual_val)\<rparr>)))"

text \<open>
  The tail shared by the two indel paths: \<^verbatim>\<open>ref2read\<close>, the qualities for
  \<^verbatim>\<open>read.length()\<close> positions, \<^verbatim>\<open>parse_error\<close>. Without indels \<^verbatim>\<open>seq_read\<close> is the
  array \<^verbatim>\<open>seq_ref\<close> itself, so \<^verbatim>\<open>parse_error\<close> changes both.
\<close>

definition finish_read ::
  "(nat \<Rightarrow> rat) \<Rightarrow> Art \<Rightarrow> SeqRead \<Rightarrow> bool \<Rightarrow> random_state \<Rightarrow> (SeqRead \<times> random_state) result"
where
  "finish_read pow10 self read is_first g =
     bind (ref2read read) (\<lambda>read.
     bind (get_read_qual (emp_dist self) (length_read read) is_first g) (\<lambda>(qs, g').
     bind (parse_error pow10 qs (seq_read read) g') (\<lambda>(qs', sr, g'').
       Return (read\<lparr>quals := Some qs', seq_read := sr,
                     seq_ref := (if indel read = [] then sr else seq_ref read)\<rparr>, g''))))"

definition next_read_indel_seq ::
  "(nat \<Rightarrow> rat) \<Rightarrow> Art \<Rightarrow> string \<Rightarrow> bool \<Rightarrow> random_state \<Rightarrow> (SeqRead \<times> random_state) result"
where
  "next_read_indel_seq pow10 self template plus_strand g =
     (let read = new_read self None plus_strand;
          mut_temp = make_mutable template;
          read = (if length mut_temp < read_len read
                  then read\<lparr>read_len := length mut_temp\<rparr> else read)
      in
      bind (get_indel read g) (\<lambda>(slen, read, g).
      bind (if int (art_read_len self) - slen > int (length mut_temp)
            then get_indel_2 read g else Return (slen, read, g)) (\<lambda>(slen, read, g).
        let read =
              (if is_plus_strand read
               then read\<lparr>seq_ref := py_slice mut_temp 0 (int (art_read_len self) - slen)\<rparr>
               else read\<lparr>seq_ref :=
                      py_slice (revcomp template) 0 (int (art_read_len self) - slen)\<rparr>);
            read = read\<lparr>bpos := Some 0\<rparr>
        in finish_read pow10 self read (is_plus_strand read) g)))"

text \<open>
  \<^verbatim>\<open>next_read_indel_at\<close> hands a Python list of characters to \<^verbatim>\<open>np.fromstring\<close>; what
  numpy makes of a list is the parameter \<open>fromstring_list\<close>.
\<close>

definition next_read_indel_at ::
  "(nat \<Rightarrow> rat) \<Rightarrow> (string \<Rightarrow> string result) \<Rightarrow> Art \<Rightarrow> int \<Rightarrow> bool \<Rightarrow> random_state
     \<Rightarrow> (SeqRead \<times> random_state) result"
where
  "next_read_indel_at pow10 fromstring_list self pos plus_strand g =
     (let read = new_read self None True;
          read = read\<lparr>is_plus_strand := plus_strand\<rparr>
      in
      bind (get_indel read g) (\<lambda>(slen, read, g).
        case ref_seq self of
          None \<Rightarrow> Raise TypeError
        | Some ref \<Rightarrow>
            bind (if pos + int (art_read_len self) - slen > int (length ref)
                  then get_indel_2 read g else Return (slen, read, g)) (\<lambda>(slen, read, g).
            bind (if is_plus_strand read
                  then fromstring_list (py_slice ref pos (pos + int (art_read_len self) - slen))
                  else
                    (case ref_seq_cmp self of
                       None \<Rightarrow> Raise TypeError
                     | Some cmp \<Rightarrow>
                         fromstring_list
                           (py_slice cmp pos (pos + int (art_read_len self) - slen))))
              (\<lambda>sref.
                finish_read pow10 self (read\<lparr>seq_ref := sref, bpos := Some pos\<rparr>) True g))))"

text \<open>
  The equations of the loops defined with a measure recurse without a condition; they
  are unfolded by hand.
\<close>

declare binsearch_left.simps [simp del] parse_error_loop.simps [simp del]
  place_deletions.simps [simp del] place_insertions.simps [simp del]
  ref2read_walk.simps [simp del] ref2read_flush.simps [simp del]

section \<open>Properties\<close>

subsection \<open>Reverse complement\<close>

lemma COMPLEMENT_TABLE_twice:
  "COMPLEMENT_TABLE (COMPLEMENT_TABLE c) = c \<longleftrightarrow> c \<notin> set ''acgtumrwsykvhdbUMRWSYKVHDB''"
  by (simp add: COMPLEMENT_TABLE_def maketrans_def)

lemma revcomp_twice_map: "revcomp (revcomp s) = map (COMPLEMENT_TABLE \<circ> COMPLEMENT_TABLE) s"
  by (simp add: revcomp_def translate_def rev_map)

text \<open>
  C3, as the spec states it, fails: the table sends \<open>U\<close> to \<open>A\<close> and \<open>A\<close> to \<open>T\<close>, the
  lower-case letters to upper-case complements, and every ambiguity letter to \<open>N\<close> or
  \<open>n\<close>, so the second application does not come back.
\<close>

theorem revcomp_twice_counterexample:
  "revcomp (revcomp ''U'') = ''T'' \<and> revcomp (revcomp ''a'') = ''A''
   \<and> revcomp (revcomp ''R'') = ''N'' \<and> revcomp (revcomp ''ACGU'') \<noteq> ''ACGU''"
  by (simp add: revcomp_def translate_def COMPLEMENT_TABLE_def maketrans_def)

text \<open>
  C3, amended: reverse-complementing twice returns the original sequence exactly when the
  sequence has none of the letters \<open>a c g t u\<close>, \<open>U\<close>, or an ambiguity letter
  \<open>M R W S Y K V H D B\<close> in either case; in particular for every sequence over the upper-case
  letters \<open>A C G T N\<close>.
\<close>

theorem revcomp_twice_iff:
  "revcomp (revcomp s) = s \<longleftrightarrow> (\<forall>c \<in> set s. c \<notin> set ''acgtumrwsykvhdbUMRWSYKVHDB'')"
proof -
  have "revcomp (revcomp s) = s \<longleftrightarrow> map (COMPLEMENT_TABLE \<circ> COMPLEMENT_TABLE) s = map id s"
    by (simp add: revcomp_twice_map)
  also have "\<dots> \<longleftrightarrow> (\<forall>c \<in> set s. COMPLEMENT_TABLE (COMPLEMENT_TABLE c) = c)"
    by (simp only: map_eq_conv comp_apply id_apply)
  also have "\<dots> \<longleftrightarrow> (\<forall>c \<in> set s. c \<notin> set ''acgtumrwsykvhdbUMRWSYKVHDB'')"
    by (simp only: COMPLEMENT_TABLE_twice)
  finally show ?thesis .
qed

theorem revcomp_twice_iff_witness:
  "revcomp (revcomp ''GATTACAN'') = ''GATTACAN''"
  using revcomp_twice_iff [of "''GATTACAN''"] by simp

end
